theory Spec2Isabelle
  imports Complex_Main
begin

section \<open>Characters and strings\<close>

text \<open>
  A Python \<open>str\<close> is a sequence of code points.  The model takes Isabelle's \<open>string\<close>
  and reads every \<open>char\<close> as the code point of the same number, so it covers the texts
  whose code points are below 256.  On that range the classes below are the ones of
  Python 3: \<open>str.isspace\<close> and the \<open>re\<close> classes \<open>\s\<close>, \<open>\d\<close>, \<open>\w\<close>, and \<open>str.lower\<close>
  (which keeps the length there).
\<close>

definition code :: "char \<Rightarrow> nat" where
  "code c = of_char c"

definition py_isspace :: "char \<Rightarrow> bool" where
  "py_isspace c = (code c \<in> {9, 10, 11, 12, 13, 28, 29, 30, 31, 32, 133, 160})"

definition py_isdigit :: "char \<Rightarrow> bool" where
  "py_isdigit c = (48 \<le> code c \<and> code c \<le> 57)"

definition py_isword :: "char \<Rightarrow> bool" where
  "py_isword c = (let n = code c in
     (48 \<le> n \<and> n \<le> 57) \<or> (65 \<le> n \<and> n \<le> 90) \<or> n = 95 \<or> (97 \<le> n \<and> n \<le> 122) \<or>
     n = 170 \<or> n = 178 \<or> n = 179 \<or> n = 181 \<or> n = 185 \<or> n = 186 \<or>
     (188 \<le> n \<and> n \<le> 190) \<or> (192 \<le> n \<and> n \<le> 214) \<or> (216 \<le> n \<and> n \<le> 246) \<or> 248 \<le> n)"

definition lower_char :: "char \<Rightarrow> char" where
  "lower_char c = (let n = code c in
     if (65 \<le> n \<and> n \<le> 90) \<or> (192 \<le> n \<and> n \<le> 222 \<and> n \<noteq> 215) then char_of (n + 32) else c)"

text \<open>\<open>str.lower()\<close>\<close>

definition lower :: "string \<Rightarrow> string" where
  "lower s = map lower_char s"

text \<open>\<open>str.startswith\<close> and the substring test \<open>w in s\<close>\<close>

fun startswith :: "string \<Rightarrow> string \<Rightarrow> bool" where
  "startswith s [] = True"
| "startswith [] (w # ws) = False"
| "startswith (c # cs) (w # ws) = (c = w \<and> startswith cs ws)"

fun contains :: "string \<Rightarrow> string \<Rightarrow> bool" where
  "contains [] w = (w = [])"
| "contains (c # cs) w = (startswith (c # cs) w \<or> contains cs w)"

text \<open>\<open>str.strip()\<close>: whitespace removed at both ends\<close>

definition strip :: "string \<Rightarrow> string" where
  "strip s = rev (dropWhile py_isspace (rev (dropWhile py_isspace s)))"

text \<open>\<open>s.split()\<close>: the maximal runs of characters that are not whitespace\<close>

fun split_ws :: "string \<Rightarrow> string \<Rightarrow> string list" where
  "split_ws cur [] = (if cur = [] then [] else [cur])"
| "split_ws cur (c # cs) =
     (if py_isspace c then (if cur = [] then [] else [cur]) @ split_ws [] cs
      else split_ws (cur @ [c]) cs)"

definition split :: "string \<Rightarrow> string list" where
  "split s = split_ws [] s"

text \<open>\<open>sep.join(xs)\<close>\<close>

fun join :: "string \<Rightarrow> string list \<Rightarrow> string" where
  "join sep [] = []"
| "join sep [x] = x"
| "join sep (x # y # ys) = x @ sep @ join sep (y # ys)"


section \<open>Regular expressions\<close>

text \<open>
  The fragment of Python's \<open>re\<close> syntax that the pattern tables use.  A position in the
  subject is the character before it (if any) and the rest of the subject; \<open>ends r ic p\<close>
  lists the positions where a match of \<open>r\<close> that starts at \<open>p\<close> can end, in the order in
  which the backtracking matcher of \<open>re\<close> tries them, so its head is the match that
  \<open>re\<close> reports.  \<open>ic\<close> is the flag \<open>re.IGNORECASE\<close>.
\<close>

datatype citem = CChar char | CSpace | CDigit

datatype regex =
    Eps
  | Lit char
  | Dot
  | Digit
  | Space
  | Class "citem list"
  | WordB
  | Seq regex regex
  | Alt regex regex
  | Opt regex
  | Star regex
  | Plus regex
  | LazyStar regex

type_synonym pos = "char option \<times> string"

definition char_eq :: "bool \<Rightarrow> char \<Rightarrow> char \<Rightarrow> bool" where
  "char_eq ic c d = (if ic then lower_char d = lower_char c else d = c)"

fun citem_ok :: "bool \<Rightarrow> char \<Rightarrow> citem \<Rightarrow> bool" where
  "citem_ok ic d (CChar c) = char_eq ic c d"
| "citem_ok ic d CSpace = py_isspace d"
| "citem_ok ic d CDigit = py_isdigit d"

fun word_before :: "pos \<Rightarrow> bool" where
  "word_before (None, rest) = False"
| "word_before (Some c, rest) = py_isword c"

fun word_after :: "pos \<Rightarrow> bool" where
  "word_after (prev, []) = False"
| "word_after (prev, c # cs) = py_isword c"

text \<open>\<open>\b\<close>: exactly one side of the position is a word character\<close>

definition is_boundary :: "pos \<Rightarrow> bool" where
  "is_boundary p = (word_before p \<noteq> word_after p)"

fun eat :: "(char \<Rightarrow> bool) \<Rightarrow> pos \<Rightarrow> pos list" where
  "eat P (prev, []) = []"
| "eat P (prev, c # cs) = (if P c then [(Some c, cs)] else [])"

definition advances :: "pos \<Rightarrow> pos \<Rightarrow> bool" where
  "advances p q = (length (snd q) < length (snd p))"

text \<open>
  Repetition of a body \<open>f\<close>, at most \<open>n\<close> times; an iteration that consumes nothing is
  dropped, as \<open>re\<close> does.  The greedy loop prefers one more iteration, the lazy one
  prefers to stop.
\<close>

fun star_greedy :: "(pos \<Rightarrow> pos list) \<Rightarrow> nat \<Rightarrow> pos \<Rightarrow> pos list" where
  "star_greedy f 0 p = [p]"
| "star_greedy f (Suc n) p = concat (map (star_greedy f n) (filter (advances p) (f p))) @ [p]"

fun star_lazy :: "(pos \<Rightarrow> pos list) \<Rightarrow> nat \<Rightarrow> pos \<Rightarrow> pos list" where
  "star_lazy f 0 p = [p]"
| "star_lazy f (Suc n) p = p # concat (map (star_lazy f n) (filter (advances p) (f p)))"

primrec ends :: "regex \<Rightarrow> bool \<Rightarrow> pos \<Rightarrow> pos list" where
  "ends Eps ic p = [p]"
| "ends (Lit c) ic p = eat (char_eq ic c) p"
| "ends Dot ic p = eat (\<lambda>d. d \<noteq> CHR 0x0A) p"
| "ends Digit ic p = eat py_isdigit p"
| "ends Space ic p = eat py_isspace p"
| "ends (Class items) ic p = eat (\<lambda>d. list_ex (citem_ok ic d) items) p"
| "ends WordB ic p = (if is_boundary p then [p] else [])"
| "ends (Seq a b) ic p = concat (map (ends b ic) (ends a ic p))"
| "ends (Alt a b) ic p = ends a ic p @ ends b ic p"
| "ends (Opt a) ic p = ends a ic p @ [p]"
| "ends (Star a) ic p = star_greedy (ends a ic) (length (snd p)) p"
| "ends (Plus a) ic p = concat (map (\<lambda>q. star_greedy (ends a ic) (length (snd q)) q) (ends a ic p))"
| "ends (LazyStar a) ic p = star_lazy (ends a ic) (length (snd p)) p"

text \<open>
  \<open>re.search\<close>: the first position, from the left, where a match starts, with the end of
  the match found first there; \<open>None\<close> when no position has a match.
\<close>

fun search_from :: "regex \<Rightarrow> bool \<Rightarrow> pos \<Rightarrow> (pos \<times> pos) option" where
  "search_from r ic (prev, rest) =
     (case ends r ic (prev, rest) of
        q # qs \<Rightarrow> Some ((prev, rest), q)
      | [] \<Rightarrow> (case rest of [] \<Rightarrow> None | c # cs \<Rightarrow> search_from r ic (Some c, cs)))"

text \<open>the text between two positions of one subject: \<open>match.group()\<close>\<close>

definition between :: "pos \<Rightarrow> pos \<Rightarrow> string" where
  "between p q = take (length (snd p) - length (snd q)) (snd p)"

definition re_search :: "regex \<Rightarrow> bool \<Rightarrow> string \<Rightarrow> string option" where
  "re_search r ic s = map_option (\<lambda>(p, q). between p q) (search_from r ic (None, s))"

text \<open>\<open>bool(re.search(pattern, s))\<close>\<close>

definition found :: "regex \<Rightarrow> bool \<Rightarrow> string \<Rightarrow> bool" where
  "found r ic s = (re_search r ic s \<noteq> None)"

text \<open>\<open>any(re.search(pattern, s) for pattern in patterns)\<close>\<close>

definition any_found :: "regex list \<Rightarrow> bool \<Rightarrow> string \<Rightarrow> bool" where
  "any_found rs ic s = list_ex (\<lambda>r. found r ic s) rs"

text \<open>a literal string, and a sequence of patterns\<close>

fun seqs :: "regex list \<Rightarrow> regex" where
  "seqs [] = Eps"
| "seqs [r] = r"
| "seqs (r # rs) = Seq r (seqs rs)"

definition lit :: "string \<Rightarrow> regex" where
  "lit s = seqs (map Lit s)"

fun alts :: "regex list \<Rightarrow> regex" where
  "alts [] = Class []"
| "alts [r] = r"
| "alts (r # rs) = Alt r (alts rs)"

text \<open>\<open>\bw\b\<close> for a pattern \<open>w\<close>, and \<open>s?\<close>\<close>

definition bounded :: "regex \<Rightarrow> regex" where
  "bounded r = Seq WordB (Seq r WordB)"

definition word :: "string \<Rightarrow> regex" where
  "word s = bounded (lit s)"

text \<open>\<open>\bws?\b\<close> and \<open>\bwd?\b\<close> for a literal \<open>w\<close>\<close>

definition word_s :: "string \<Rightarrow> regex" where
  "word_s s = bounded (Seq (lit s) (Opt (Lit CHR ''s'')))"

definition word_d :: "string \<Rightarrow> regex" where
  "word_d s = bounded (Seq (lit s) (Opt (Lit CHR ''d'')))"


text \<open>\<open>\d+\<close>, \<open>\s+\<close>, \<open>\s*\<close> and \<open>\d+\.?\d*\<close>\<close>

definition digits :: regex where
  "digits = Plus Digit"

definition spaces1 :: regex where
  "spaces1 = Plus Space"

definition spaces0 :: regex where
  "spaces0 = Star Space"

definition decimal :: regex where
  "decimal = seqs [Plus Digit, Opt (Lit CHR ''.''), Star Digit]"


section \<open>The pattern tables of \<open>statistical_checks.py\<close>\<close>


definition EXTREME_WORDS :: "regex list" where
  "EXTREME_WORDS =
    [bounded (Seq (lit ''prove'') (Opt (Class [CChar CHR ''s'', CChar CHR ''d'']))),
     word ''always'', word ''never'', word ''impossible'',
     word ''certainly'', word ''definitely'', word ''clearly'', word ''obviously'',
     word ''undoubtedly'', word ''all'', word ''none'', word ''every'', word ''no'',
     bounded (Seq (lit ''cure'') (Opt (Class [CChar CHR ''s'', CChar CHR ''d'']))),
     word ''will'',
     bounded (Seq (lit ''guarantee'') (Opt (Class [CChar CHR ''s'', CChar CHR ''d'']))),
     word ''certain'',
     word ''zero risk'', word ''must'',
     bounded (seqs [lit ''can'', Opt (Lit (CHR 0x27)), Lit CHR ''t'']),
     bounded (seqs [lit ''won'', Opt (Lit (CHR 0x27)), Lit CHR ''t'']),
     word_s ''eliminate'', word_s ''ensure'', word ''100%'', word ''completely'',
     word ''entirely'', word ''absolutely'', word ''totally'']"

definition CAUSATION_WORDS :: "regex list" where
  "CAUSATION_WORDS =
    [word_s ''cause'', word ''caused by'',
     bounded (seqs [lit ''lead'', Opt (Lit CHR ''s''), lit '' to'']),
     bounded (seqs [lit ''result'', Opt (Lit CHR ''s''), lit '' in'']),
     word_s ''make'', word_s ''force'', word_s ''produce'', word_s ''create'',
     word ''due to'', word ''because of'', word ''therefore'', word ''thus'',
     word_s ''increase'', word_s ''decrease'', word_s ''improve'', word_s ''worsen'',
     word_s ''cure'', word_s ''boost'', word_s ''reduce'', word_s ''raise'',
     word_s ''lower'', word_s ''enhance'', word_s ''prevent'', word_s ''trigger'',
     word_s ''enable'', word_s ''disable'']"

definition SAMPLE_SIZE_PATTERNS :: "regex list" where
  "SAMPLE_SIZE_PATTERNS =
    [seqs [WordB, Lit CHR ''n'', spaces0, Lit CHR ''='', spaces0, digits],
     seqs [WordB, lit ''sample size'', Plus (Class [CChar CHR '':'', CSpace]), digits],
     seqs [WordB, digits, spaces1, lit ''participant'', Opt (Lit CHR ''s''), WordB],
     seqs [WordB, digits, spaces1, lit ''subject'', Opt (Lit CHR ''s''), WordB],
     seqs [WordB, digits, spaces1, lit ''respondent'', Opt (Lit CHR ''s''), WordB],
     seqs [WordB, digits, spaces1, lit ''people'', WordB],
     seqs [WordB, Lit CHR ''N'', spaces0, Lit CHR ''='', spaces0, digits]]"


definition RISK_MULTIPLIER_PATTERNS :: "regex list" where
  "RISK_MULTIPLIER_PATTERNS =
    [seqs [WordB, lit ''doubl'', alts [lit ''e'', lit ''es'', lit ''ed'', lit ''ing''], WordB],
     seqs [WordB, lit ''tripl'', alts [lit ''e'', lit ''es'', lit ''ed'', lit ''ing''], WordB],
     seqs [WordB, digits, Lit CHR ''x'', spaces1,
           alts [lit ''higher'', lit ''more'', lit ''greater'', lit ''increased'']],
     seqs [WordB, digits, spaces1, lit ''times'', spaces1,
           alts [lit ''higher'', lit ''more'', lit ''greater'', lit ''as likely'']],
     seqs [WordB, digits, Lit CHR ''%'', spaces1, lit ''increase''],
     seqs [WordB, digits, lit ''00%'', WordB]]"

definition RISK_WORDS :: "regex list" where
  "RISK_WORDS =
    [word ''risk'', word ''chance'', word ''likely'', word ''likelihood'',
     word ''probability'', word ''odds'', word ''more likely'', word ''hazard'']"

definition EFFECT_WORDS :: "regex list" where
  "EFFECT_WORDS =
    [word_d ''improve'', word_d ''reduce'', word_d ''increase'', word_d ''decrease'',
     word ''better'', word ''worse'', word ''more effective'', word ''less effective'',
     word ''superior'', word ''inferior'', word_d ''enhance'', word ''worked'',
     word ''helped'', word ''benefited'', word ''boosted'',
     word_s ''regulate'', word_s ''fight'', word_s ''block'', word_s ''stop'',
     word_s ''prevent'', word_s ''cure'']"

definition COMPARATOR_WORDS :: "regex list" where
  "COMPARATOR_WORDS =
    [word ''than'', bounded (Seq (lit ''vs'') (Opt (Lit CHR ''.''))), word ''versus'',
     word ''compared to'', word ''compared with'', word ''relative to'', word ''against'',
     word ''control group'', word ''placebo'', word ''baseline'',
     word ''control'', word ''comparison group'']"


section \<open>The data model of \<open>schemas.py\<close>\<close>

datatype claim_type = Statistical | Causal | Comparative | Absolute

record Claim =
  claim_id :: string
  quote :: string
  claim_type :: claim_type
  confidence :: real
  variables :: "string list"
  numerical_values :: "string list"

datatype severity = Low | Medium | High | Critical

record StatisticalCheck =
  check_name :: string
  passed :: bool
  severity :: severity
  explanation :: string
  suggestion :: "string option"

text \<open>
  \<open>StatisticalAnalyzer.__init__\<close> keeps the text and its sentences; the split is defined
  with the text metrics below.
\<close>

record StatisticalAnalyzer =
  text_of :: string
  sentences :: "string list"


section \<open>The claim rules\<close>

text \<open>the apostrophe of the f-strings\<close>

definition apo :: string where
  "apo = [CHR 0x27]"

definition EVIDENCE_MARKERS :: regex where
  "EVIDENCE_MARKERS =
     alts [word ''randomized'', word ''controlled trial'', word ''RCT'', word ''experiment'',
           word ''intervention'']"

definition check_correlation_vs_causation :: "StatisticalAnalyzer \<Rightarrow> Claim \<Rightarrow> StatisticalCheck" where
  "check_correlation_vs_causation self claim =
    (let quote_lower = lower (quote claim);
         has_causation_words = any_found CAUSATION_WORDS False quote_lower;
         has_experimental_evidence = found EVIDENCE_MARKERS True (quote claim)
     in if has_causation_words \<and> \<not> has_experimental_evidence then
          \<lparr> check_name = ''Correlation vs Causation'',
            passed = False,
            severity = High,
            explanation = ''Claim uses causal language ('' @ apo @ quote claim @ apo @
              '') but doesn'' @ apo @ ''t mention experimental evidence. '' @
              ''Causal claims require randomized controlled trials or careful causal inference, not just correlation.'',
            suggestion = Some (''Either provide experimental evidence or rephrase using correlational language: '' @
              apo @ ''associated with'' @ apo @ '', '' @ apo @ ''correlated with'' @ apo @ '', '' @
              apo @ ''linked to'' @ apo) \<rparr>
        else
          \<lparr> check_name = ''Correlation vs Causation'',
            passed = True,
            severity = Low,
            explanation = ''No inappropriate causal language detected.'',
            suggestion = None \<rparr>)"


text \<open>\<open>\d+%|\d+\s*percent|\d+\.?\d*\s*times\<close>\<close>

definition HAS_NUMBERS :: regex where
  "HAS_NUMBERS =
     alts [seqs [digits, Lit CHR ''%''],
           seqs [digits, spaces0, lit ''percent''],
           seqs [decimal, spaces0, lit ''times'']]"

definition check_sample_size :: "StatisticalAnalyzer \<Rightarrow> Claim \<Rightarrow> StatisticalCheck" where
  "check_sample_size self claim =
    (let quote_lower = lower (quote claim);
         has_numbers = found HAS_NUMBERS False quote_lower
     in if (has_numbers \<or> numerical_values claim \<noteq> []) \<and>
           \<not> any_found SAMPLE_SIZE_PATTERNS True (quote claim) then
          \<lparr> check_name = ''Sample Size Disclosure'',
            passed = False,
            severity = Medium,
            explanation = ''Statistical claim '' @ apo @ quote claim @ apo @
              '' provides numbers but doesn'' @ apo @ ''t mention sample size. '' @
              ''Small samples can produce misleading statistics.'',
            suggestion = Some (''Include sample size: '' @ apo @ ''n=X'' @ apo @ '' or '' @
              apo @ ''based on X participants'' @ apo) \<rparr>
        else
          \<lparr> check_name = ''Sample Size Disclosure'',
            passed = True,
            severity = Low,
            explanation = ''Sample size mentioned or not required for this claim type.'',
            suggestion = None \<rparr>)"

text \<open>
  \<open>extreme_matches\<close> are the patterns of the table that match the lowered quote, and
  \<open>matched_words\<close> the text each of them matches first.
\<close>

definition extreme_matches :: "string \<Rightarrow> regex list" where
  "extreme_matches quote_lower = filter (\<lambda>pattern. found pattern False quote_lower) EXTREME_WORDS"

definition matched_words :: "string \<Rightarrow> string list" where
  "matched_words quote_lower =
     concat (map (\<lambda>pattern. case re_search pattern False quote_lower of
                                None \<Rightarrow> [] | Some g \<Rightarrow> [g])
                 (extreme_matches quote_lower))"

definition HIGH_IMPACT :: "string list" where
  "HIGH_IMPACT = [''will'', ''cure'', ''guarantee'', ''must'']"

definition check_extreme_language_in_claim :: "StatisticalAnalyzer \<Rightarrow> Claim \<Rightarrow> StatisticalCheck" where
  "check_extreme_language_in_claim self claim =
    (let quote_lower = lower (quote claim)
     in if extreme_matches quote_lower \<noteq> [] then
          \<lparr> check_name = ''Extreme Language'',
            passed = False,
            severity = (if list_ex (\<lambda>word. contains quote_lower word) HIGH_IMPACT
                        then High else Medium),
            explanation = ''Claim uses absolute language: '' @ apo @
              join '', '' (take 3 (matched_words quote_lower)) @ apo @ ''. '' @
              ''Words like '' @ apo @ ''always'' @ apo @ '', '' @ apo @ ''never'' @ apo @ '', '' @
              apo @ ''will'' @ apo @ '', '' @ apo @ ''cure'' @ apo @ '', '' @
              apo @ ''guarantee'' @ apo @ '' are rarely justified in science.'',
            suggestion = Some (''Use qualified language: '' @ apo @ ''often'' @ apo @ '', '' @
              apo @ ''may'' @ apo @ '', '' @ apo @ ''suggests'' @ apo @ '', '' @
              apo @ ''can help'' @ apo @ '', '' @ apo @ ''associated with'' @ apo) \<rparr>
        else
          \<lparr> check_name = ''Extreme Language'',
            passed = True,
            severity = Low,
            explanation = ''No problematic absolute language detected.'',
            suggestion = None \<rparr>)"

text \<open>
  \<open>\d+%|\d+\s*percent\<close>,
  \<open>increase[sd]?|decrease[sd]?|more|less|higher|lower|times\<close>,
  \<open>\d+x\b\<close> and
  \<open>\bof\s+\d+|\bout of\s+\d+|from\s+\d+\s+to\s+\d+|n\s*=\s*\d+\<close>
\<close>

definition HAS_PERCENTAGE :: regex where
  "HAS_PERCENTAGE = alts [seqs [digits, Lit CHR ''%''], seqs [digits, spaces0, lit ''percent'']]"

definition HAS_RELATIVE :: regex where
  "HAS_RELATIVE =
     alts [Seq (lit ''increase'') (Opt (Class [CChar CHR ''s'', CChar CHR ''d''])),
           Seq (lit ''decrease'') (Opt (Class [CChar CHR ''s'', CChar CHR ''d''])),
           lit ''more'', lit ''less'', lit ''higher'', lit ''lower'', lit ''times'']"

definition HAS_MULTIPLIER :: regex where
  "HAS_MULTIPLIER = seqs [digits, Lit CHR ''x'', WordB]"

definition BASE_ABSOLUTE :: regex where
  "BASE_ABSOLUTE =
     alts [seqs [WordB, lit ''of'', spaces1, digits],
           seqs [WordB, lit ''out of'', spaces1, digits],
           seqs [lit ''from'', spaces1, digits, spaces1, lit ''to'', spaces1, digits],
           seqs [Lit CHR ''n'', spaces0, Lit CHR ''='', spaces0, digits]]"

definition check_base_rate :: "StatisticalAnalyzer \<Rightarrow> Claim \<Rightarrow> StatisticalCheck" where
  "check_base_rate self claim =
    (let quote_lower = lower (quote claim);
         has_percentage = found HAS_PERCENTAGE False quote_lower;
         has_relative = found HAS_RELATIVE False quote_lower;
         has_multiplier = found HAS_MULTIPLIER False quote_lower
     in if (has_percentage \<or> has_relative \<or> has_multiplier) \<and>
           \<not> found BASE_ABSOLUTE False quote_lower then
          \<lparr> check_name = ''Base Rate Neglect'',
            passed = False,
            severity = Medium,
            explanation = ''Claim provides relative statistics without absolute context. '' @
              apo @ ''50% increase'' @ apo @ '' or '' @ apo @ ''200%'' @ apo @
              '' means different things if starting from 2 vs 2000.'',
            suggestion = Some (''Include absolute numbers: '' @ apo @
              ''50% increase (from 100 to 150)'' @ apo @ '' or baseline context'') \<rparr>
        else
          \<lparr> check_name = ''Base Rate Neglect'',
            passed = True,
            severity = Low,
            explanation = ''Base rates provided or not applicable.'',
            suggestion = None \<rparr>)"

definition quant_keywords :: "string list" where
  "quant_keywords =
     [''significant'', ''substantial'', ''large'', ''small'', ''majority'',
      ''minority'', ''most'', ''few'', ''many'', ''rare'', ''common'']"

definition check_data_support :: "StatisticalAnalyzer \<Rightarrow> Claim \<Rightarrow> StatisticalCheck" where
  "check_data_support self claim =
    (let quote_lower = lower (quote claim);
         has_quant_keyword = list_ex (\<lambda>keyword. contains quote_lower keyword) quant_keywords
     in if has_quant_keyword \<and> numerical_values claim = [] then
          \<lparr> check_name = ''Data Support'',
            passed = False,
            severity = Medium,
            explanation = ''Claim uses quantitative language ('' @ apo @ quote claim @ apo @
              '') but provides no actual numbers. '' @
              ''Terms like '' @ apo @ ''significant'' @ apo @ '' or '' @ apo @ ''most'' @ apo @
              '' should be backed by data.'',
            suggestion = Some ''Replace vague terms with specific percentages or counts'' \<rparr>
        else
          \<lparr> check_name = ''Data Support'',
            passed = True,
            severity = Low,
            explanation = ''Claims are appropriately supported with data or don'' @ apo @
              ''t require it.'',
            suggestion = None \<rparr>)"

text \<open>
  \<open>\bfrom\s+\d+\.?\d*%?\s+to\s+\d+\.?\d*%?|\bout of\s+\d+|\bof\s+\d+|\bin\s+\d+|\<close>
  \<open>\b\d+\.?\d*%\s+to\s+\d+\.?\d*%|\babsolute risk\<close>
\<close>

definition RISK_ABSOLUTE :: regex where
  "RISK_ABSOLUTE =
     alts [seqs [WordB, lit ''from'', spaces1, decimal, Opt (Lit CHR ''%''), spaces1,
                 lit ''to'', spaces1, decimal, Opt (Lit CHR ''%'')],
           seqs [WordB, lit ''out of'', spaces1, digits],
           seqs [WordB, lit ''of'', spaces1, digits],
           seqs [WordB, lit ''in'', spaces1, digits],
           seqs [WordB, decimal, Lit CHR ''%'', spaces1, lit ''to'', spaces1, decimal, Lit CHR ''%''],
           seqs [WordB, lit ''absolute risk'']]"

definition check_relative_risk_without_context :: "StatisticalAnalyzer \<Rightarrow> Claim \<Rightarrow> StatisticalCheck" where
  "check_relative_risk_without_context self claim =
    (let quote_lower = lower (quote claim);
         has_risk_multiplier = any_found RISK_MULTIPLIER_PATTERNS False quote_lower;
         has_risk_word = any_found RISK_WORDS False quote_lower
     in if (has_risk_multiplier \<and> has_risk_word) \<and> \<not> found RISK_ABSOLUTE False quote_lower then
          \<lparr> check_name = ''Relative Risk Without Context'',
            passed = False,
            severity = High,
            explanation = ''Claim uses alarming relative risk language ('' @ apo @ quote claim @
              apo @ '') without providing absolute numbers. '' @
              apo @ ''Doubles your risk'' @ apo @
              '' sounds scary, but doubling from 0.001% to 0.002% is very different from 10% to 20%.'',
            suggestion = Some (''Include absolute risk: '' @ apo @ ''increased from 0.5% to 1%'' @
              apo @ '' or '' @ apo @
              ''affecting 2 in 10,000 people instead of 1 in 10,000'' @ apo) \<rparr>
        else
          \<lparr> check_name = ''Relative Risk Without Context'',
            passed = True,
            severity = Low,
            explanation = ''Relative risk properly contextualized or not applicable.'',
            suggestion = None \<rparr>)"

text \<open>
  \<open>\b(increase[ds]?|decrease[ds]?|reduced?|improved?|rose|fell|dropped|grew|enhanced?)\<close>
  \<open>\s+(by|from|to)\s+\d+|\bfrom\s+\d+.*?\bto\s+\d+\<close>, and
  \<open>\bstudy\b|\bresearch\b|\btrial\b|\btest\b|\bparticipants?\b|\bsubjects?\b\<close>
\<close>

definition IMPLICIT_COMPARATOR :: regex where
  "IMPLICIT_COMPARATOR =
     Alt (seqs [WordB,
                alts [Seq (lit ''increase'') (Opt (Class [CChar CHR ''d'', CChar CHR ''s''])),
                      Seq (lit ''decrease'') (Opt (Class [CChar CHR ''d'', CChar CHR ''s''])),
                      Seq (lit ''reduce'') (Opt (Lit CHR ''d'')),
                      Seq (lit ''improve'') (Opt (Lit CHR ''d'')),
                      lit ''rose'', lit ''fell'', lit ''dropped'', lit ''grew'',
                      Seq (lit ''enhance'') (Opt (Lit CHR ''d''))],
                spaces1, alts [lit ''by'', lit ''from'', lit ''to''], spaces1, digits])
         (seqs [WordB, lit ''from'', spaces1, digits, LazyStar Dot, WordB, lit ''to'',
                spaces1, digits])"

definition RESEARCH_CONTEXT :: regex where
  "RESEARCH_CONTEXT =
     alts [word ''study'', word ''research'', word ''trial'', word ''test'',
           word_s ''participant'', word_s ''subject'']"

definition check_missing_comparator :: "StatisticalAnalyzer \<Rightarrow> Claim \<Rightarrow> StatisticalCheck" where
  "check_missing_comparator self claim =
    (let quote_lower = lower (quote claim);
         has_effect_claim = any_found EFFECT_WORDS False quote_lower;
         has_comparator = any_found COMPARATOR_WORDS False quote_lower;
         has_implicit_comparator = found IMPLICIT_COMPARATOR False quote_lower;
         is_research_claim = found RESEARCH_CONTEXT False quote_lower
     in if has_effect_claim \<and> \<not> has_comparator \<and> \<not> has_implicit_comparator then
          \<lparr> check_name = ''Missing Comparator'',
            passed = False,
            severity = (if is_research_claim then High else Medium),
            explanation = ''Claim states that something '' @ apo @ quote claim @ apo @
              '' but doesn'' @ apo @ ''t specify compared to what. '' @
              ''Improved vs. placebo? Control group? Previous version? Doing nothing? Without a comparison point, the claim is meaningless.'',
            suggestion = Some (''Specify the comparison: '' @ apo @ ''improved compared to placebo'' @
              apo @ '', '' @ apo @ ''better than standard treatment'' @ apo @ '', '' @
              apo @ ''reduced vs. baseline'' @ apo) \<rparr>
        else
          \<lparr> check_name = ''Missing Comparator'',
            passed = True,
            severity = Low,
            explanation = ''Comparisons are properly specified or not required.'',
            suggestion = None \<rparr>)"

text \<open>\<open>StatisticalAnalyzer.check_claim\<close>\<close>

definition check_claim :: "StatisticalAnalyzer \<Rightarrow> Claim \<Rightarrow> StatisticalCheck list" where
  "check_claim self claim =
     [check_correlation_vs_causation self claim,
      check_sample_size self claim,
      check_extreme_language_in_claim self claim,
      check_base_rate self claim,
      check_data_support self claim,
      check_relative_risk_without_context self claim,
      check_missing_comparator self claim]"



section \<open>Text metrics\<close>

text \<open>
  The iteration behind \<open>re.findall\<close> and \<open>re.split\<close>: the matches from left to right,
  each searched from the end of the one before.  After a match that consumed nothing the
  next one must consume something if it starts at the same place (\<open>must_advance\<close> of the
  matcher).  A match never ends before it starts, which is what the iteration needs to
  stop.
\<close>

lemma star_greedy_length:
  assumes "\<And>p q. q \<in> set (f p) \<Longrightarrow> length (snd q) \<le> length (snd p)"
  shows "q \<in> set (star_greedy f n p) \<Longrightarrow> length (snd q) \<le> length (snd p)"
proof (induction n arbitrary: p)
  case 0
  then show ?case by simp
next
  case (Suc n)
  from Suc.prems consider "q = p"
    | p' where "p' \<in> set (f p)" and "q \<in> set (star_greedy f n p')"
    by auto
  then show ?case
  proof cases
    case 1
    then show ?thesis by simp
  next
    case 2
    from assms [OF 2(1)] Suc.IH [OF 2(2)] show ?thesis by simp
  qed
qed

lemma star_lazy_length:
  assumes "\<And>p q. q \<in> set (f p) \<Longrightarrow> length (snd q) \<le> length (snd p)"
  shows "q \<in> set (star_lazy f n p) \<Longrightarrow> length (snd q) \<le> length (snd p)"
proof (induction n arbitrary: p)
  case 0
  then show ?case by simp
next
  case (Suc n)
  from Suc.prems consider "q = p"
    | p' where "p' \<in> set (f p)" and "q \<in> set (star_lazy f n p')"
    by auto
  then show ?case
  proof cases
    case 1
    then show ?thesis by simp
  next
    case 2
    from assms [OF 2(1)] Suc.IH [OF 2(2)] show ?thesis by simp
  qed
qed

lemma eat_length: "q \<in> set (eat P p) \<Longrightarrow> length (snd q) \<le> length (snd p)"
  by (cases "(P, p)" rule: eat.cases) (auto split: if_splits)

lemma ends_length: "q \<in> set (ends r ic p) \<Longrightarrow> length (snd q) \<le> length (snd p)"
proof (induction r arbitrary: p q)
  case (Seq a b)
  then obtain p' where "p' \<in> set (ends a ic p)" and "q \<in> set (ends b ic p')" by auto
  from Seq.IH(1) [OF this(1)] Seq.IH(2) [OF this(2)] show ?case by simp
next
  case (Star a)
  then have "q \<in> set (star_greedy (ends a ic) (length (snd p)) p)" by simp
  then show ?case using Star.IH by (rule star_greedy_length [rotated])
next
  case (Plus a)
  then obtain p' where p': "p' \<in> set (ends a ic p)"
    and "q \<in> set (star_greedy (ends a ic) (length (snd p')) p')" by auto
  from this(2) have "length (snd q) \<le> length (snd p')"
    using Plus.IH by (rule star_greedy_length [rotated])
  with Plus.IH [OF p'] show ?case by simp
next
  case (LazyStar a)
  then have "q \<in> set (star_lazy (ends a ic) (length (snd p)) p)" by simp
  then show ?case using LazyStar.IH by (rule star_lazy_length [rotated])
qed (auto dest: eat_length split: if_splits)

lemma first_candidate:
  assumes "(if m then filter (advances p) (ends r ic p) else ends r ic p) = q # qs"
  shows "length (snd q) \<le> length (snd p) \<and> (m \<longrightarrow> advances p q)"
proof -
  have "q \<in> set (if m then filter (advances p) (ends r ic p) else ends r ic p)"
    unfolding assms by simp
  then have "q \<in> set (ends r ic p)" and "m \<longrightarrow> advances p q"
    by (auto split: if_splits)
  with ends_length [of q r ic p] show ?thesis by simp
qed

function matches_from :: "regex \<Rightarrow> bool \<Rightarrow> bool \<Rightarrow> pos \<Rightarrow> (pos \<times> pos) list" where
  "matches_from r ic must_advance p =
     (case (if must_advance then filter (advances p) (ends r ic p) else ends r ic p) of
        q # qs \<Rightarrow> (p, q) # matches_from r ic (\<not> advances p q) q
      | [] \<Rightarrow> (case snd p of
                 [] \<Rightarrow> []
               | c # cs \<Rightarrow> matches_from r ic False (Some c, cs)))"
  by pat_completeness auto
termination
proof (relation "measure (\<lambda>(r, ic, must_advance, p).
                   2 * length (snd p) + (if must_advance then 0 else 1))", goal_cases)
  case 1
  show ?case by simp
next
  case 2
  then show ?case by simp
next
  case 3
  from first_candidate [OF 3] show ?case by (auto simp: advances_def)
qed


fun pieces :: "pos \<Rightarrow> (pos \<times> pos) list \<Rightarrow> string list" where
  "pieces p [] = [snd p]"
| "pieces p ((a, q) # ms) = between p a # pieces q ms"

definition re_split :: "regex \<Rightarrow> string \<Rightarrow> string list" where
  "re_split r s = pieces (None, s) (matches_from r False False (None, s))"

text \<open>\<open>[.!?]+\<close>\<close>

definition SENTENCE_END :: regex where
  "SENTENCE_END = Plus (Class [CChar CHR ''.'', CChar CHR ''!'', CChar CHR ''?''])"

definition split_sentences :: "string \<Rightarrow> string list" where
  "split_sentences text = map strip (filter (\<lambda>s. strip s \<noteq> []) (re_split SENTENCE_END text))"

text \<open>\<open>StatisticalAnalyzer(text)\<close>\<close>

definition analyzer :: "string \<Rightarrow> StatisticalAnalyzer" where
  "analyzer text = \<lparr> text_of = text, sentences = split_sentences text \<rparr>"












section \<open>Aggregation and scoring (\<open>app.py\<close>)\<close>

datatype status = Clean | Minor_issues | Major_issues | Critical_status

record ClaimAudit =
  audit_claim_id :: string
  claim_quote :: string
  checks_performed :: "StatisticalCheck list"
  overall_status :: status

text \<open>the status that \<open>run_standard_analysis\<close> derives from the checks of one claim\<close>

definition derive_status :: "StatisticalCheck list \<Rightarrow> status" where
  "derive_status checks =
     (let failed_checks = filter (\<lambda>c. \<not> passed c) checks
      in if list_ex (\<lambda>c. severity c = Critical) failed_checks then Critical_status
         else if list_ex (\<lambda>c. severity c = High) failed_checks then Major_issues
         else if failed_checks \<noteq> [] then Minor_issues
         else Clean)"

definition audit_of :: "Claim \<Rightarrow> StatisticalCheck list \<Rightarrow> ClaimAudit" where
  "audit_of claim checks =
     \<lparr> audit_claim_id = claim_id claim,
       claim_quote = quote claim,
       checks_performed = checks,
       overall_status = derive_status checks \<rparr>"


definition failed_checks :: "ClaimAudit list \<Rightarrow> nat" where
  "failed_checks claim_audits =
     sum_list (map (\<lambda>audit. length (filter (\<lambda>c. \<not> passed c) (checks_performed audit))) claim_audits)"



section \<open>The retry loop (\<open>retry.py\<close>)\<close>

text \<open>\<open>str(n)\<close> for an integer\<close>

fun digits_of :: "nat \<Rightarrow> string" where
  "digits_of n = (if n < 10 then [char_of (48 + n)]
                  else digits_of (n div 10) @ [char_of (48 + n mod 10)])"

definition str_int :: "int \<Rightarrow> string" where
  "str_int i = (if i < 0 then CHR ''-'' # digits_of (nat (- i)) else digits_of (nat i))"

text \<open>\<open>s.find(w, start)\<close> for \<open>0 \<le> start\<close>, and the slice \<open>s[a:b]\<close>\<close>

fun find_idx :: "string \<Rightarrow> string \<Rightarrow> nat option" where
  "find_idx [] w = (if w = [] then Some 0 else None)"
| "find_idx (c # cs) w = (if startswith (c # cs) w then Some 0 else map_option Suc (find_idx cs w))"

definition find :: "string \<Rightarrow> string \<Rightarrow> nat \<Rightarrow> int" where
  "find s w start =
     (if length s < start then - 1
      else case find_idx (drop start s) w of None \<Rightarrow> - 1 | Some i \<Rightarrow> int (start + i))"

definition slice :: "string \<Rightarrow> int \<Rightarrow> int \<Rightarrow> string" where
  "slice s a b =
     (let n = int (length s);
          a' = (if a < 0 then max 0 (n + a) else min a n);
          b' = (if b < 0 then max 0 (n + b) else min b n)
      in drop (nat a') (take (nat b') s))"

definition fence :: string where
  "fence = [CHR 0x60, CHR 0x60, CHR 0x60]"

text \<open>the text handed to \<open>json.loads\<close>: the content of the first fenced block, if any\<close>

definition json_str :: "string \<Rightarrow> string" where
  "json_str response_text =
     (if contains response_text (fence @ ''json'') then
        (let json_start = find response_text (fence @ ''json'') 0 + 7;
             json_end = find response_text fence (nat json_start)
         in strip (slice response_text json_start json_end))
      else if contains response_text fence then
        (let json_start = find response_text fence 0 + 3;
             json_end = find response_text fence (nat json_start)
         in strip (slice response_text json_start json_end))
      else strip response_text)"

text \<open>
  The two exceptions the loop catches, each with its \<open>str(e)\<close>.  \<open>json.loads\<close> followed
  by \<open>schema_class.model_validate\<close> is a parameter of the loop (\<open>parse\<close>): it returns the
  validated value, raises one of the two exceptions of the \<open>except\<close> clause, or raises
  another exception (\<open>json.loads\<close> raises \<open>RecursionError\<close> on deep nesting and
  \<open>ValueError\<close> on an integer of more than 4300 digits), which the clause lets through.
  The service behind \<open>client.messages.create(...).content[0].text\<close> is a parameter
  too: it has a state of its own and answers a conversation with a text, or raises.
  What leaves \<open>validate_with_retry\<close> is \<open>RetryExhaustedError\<close> or an exception that
  passed through, with its name.
\<close>

datatype failure = JSONDecodeError string | ValidationError string

datatype 'a parsed = Validated 'a | Caught failure | Uncaught string

datatype reply = Answer string | ServiceError string

datatype error = RetryExhaustedError string | Propagated string

type_synonym message = "string \<times> string"

fun str_failure :: "failure \<Rightarrow> string" where
  "str_failure (JSONDecodeError m) = m"
| "str_failure (ValidationError m) = m"

fun str_last_error :: "failure option \<Rightarrow> string" where
  "str_last_error None = ''None''"
| "str_last_error (Some e) = str_failure e"

fun error_type :: "failure \<Rightarrow> string" where
  "error_type (JSONDecodeError m) = ''JSON parsing''"
| "error_type (ValidationError m) = ''Schema validation''"

definition nl :: string where
  "nl = [CHR 0x0A]"

definition error_message :: "string \<Rightarrow> failure \<Rightarrow> string" where
  "error_message schema_name e =
     nl @ error_type e @ '' error occurred. Please fix the JSON and try again.'' @ nl @
     nl @ ''Error details:'' @ nl @
     str_failure e @ nl @
     nl @ ''Requirements:'' @ nl @
     ''1. Your response must be valid JSON'' @ nl @
     ''2. It must match this schema exactly: '' @ schema_name @ nl @
     ''3. Check all required fields are present'' @ nl @
     ''4. Ensure all field types are correct (strings, numbers, booleans, etc.)'' @ nl @
     ''5. Validate that numeric fields are in the correct ranges'' @ nl @
     nl @ ''Please output ONLY the corrected JSON, with no additional text or explanation.'' @ nl"

definition exhausted_message :: "string \<Rightarrow> int \<Rightarrow> failure option \<Rightarrow> string" where
  "exhausted_message schema_name max_retries last_error =
     ''Failed to get valid '' @ schema_name @ '' after '' @ str_int (max_retries + 1) @
     '' attempts. '' @ ''Last error: '' @ str_last_error last_error"

text \<open>
  The body of \<open>for attempt in range(max_retries + 1)\<close>, over the attempts still to make.
  Beside the outcome the loop returns the calls it made to the service, each with the
  conversation sent and what came back.
\<close>

type_synonym call = "message list \<times> reply"

fun attempts ::
  "('s \<Rightarrow> message list \<Rightarrow> reply \<times> 's) \<Rightarrow> (string \<Rightarrow> 'a parsed) \<Rightarrow> string \<Rightarrow> int \<Rightarrow>
   int list \<Rightarrow> 's \<Rightarrow> message list \<Rightarrow> failure option \<Rightarrow> (error + 'a) \<times> call list" where
  "attempts create parse schema_name max_retries [] st messages last_error =
     (Inl (RetryExhaustedError
            (''Unexpected error in retry loop. Last error: '' @ str_last_error last_error)), [])"
| "attempts create parse schema_name max_retries (attempt # rest) st messages last_error =
     (case create st messages of
        (ServiceError x, st') \<Rightarrow> (Inl (Propagated x), [(messages, ServiceError x)])
      | (Answer response_text, st') \<Rightarrow>
        (case parse (json_str response_text) of
           Validated validated_data \<Rightarrow> (Inr validated_data, [(messages, Answer response_text)])
         | Uncaught x \<Rightarrow> (Inl (Propagated x), [(messages, Answer response_text)])
         | Caught e \<Rightarrow>
             if attempt < max_retries then
               (case attempts create parse schema_name max_retries rest st'
                       (messages @ [(''assistant'', response_text),
                                    (''user'', error_message schema_name e)])
                       (Some e) of
                  (outcome, calls) \<Rightarrow> (outcome, (messages, Answer response_text) # calls))
             else
               (Inl (RetryExhaustedError (exhausted_message schema_name max_retries (Some e))),
                [(messages, Answer response_text)])))"




section \<open>Concrete inputs\<close>

text \<open>
  The claims of the repository's tests, \<open>Claim(claim_id="c1", quote=q, ...,
  numerical_values=nv)\<close>, and their analyzer, \<open>StatisticalAnalyzer("Test text")\<close>.
\<close>

definition claim_of :: "string \<Rightarrow> string list \<Rightarrow> Claim" where
  "claim_of q nv =
     \<lparr> claim_id = ''c1'', quote = q, claim_type = Statistical, confidence = 9 / 10,
       variables = [], numerical_values = nv \<rparr>"

definition test_analyzer :: StatisticalAnalyzer where
  "test_analyzer = analyzer ''Test text''"

text \<open>
  The specification's reading of the severity of the Extreme Language rule: high when
  one of the patterns for will, cure, guarantee and must is among the patterns that
  matched.  These are the four entries of \<open>EXTREME_WORDS\<close> for those words.
\<close>

definition HIGH_IMPACT_PATTERNS :: "regex list" where
  "HIGH_IMPACT_PATTERNS =
     [word ''will'',
      bounded (Seq (lit ''cure'') (Opt (Class [CChar CHR ''s'', CChar CHR ''d'']))),
      bounded (Seq (lit ''guarantee'') (Opt (Class [CChar CHR ''s'', CChar CHR ''d'']))),
      word ''must'']"

definition high_impact_among_matches :: "string \<Rightarrow> bool" where
  "high_impact_among_matches quote_lower =
     list_ex (\<lambda>pattern. pattern \<in> set HIGH_IMPACT_PATTERNS) (extreme_matches quote_lower)"









text \<open>what every check of a rule satisfies, and a second claim with the quote of a test\<close>

definition sound_check :: "StatisticalCheck \<Rightarrow> bool" where
  "sound_check c =
     ((passed c \<longrightarrow> severity c = Low) \<and> severity c \<noteq> Critical \<and> 10 \<le> length (explanation c))"

definition other_claim :: Claim where
  "other_claim = \<lparr> claim_id = ''c2'', quote = ''Coffee drinking causes longevity'',
     claim_type = Causal, confidence = 1 / 2, variables = [''coffee''], numerical_values = [] \<rparr>"












section \<open>Matches and substrings\<close>

lemma filter_nonempty_iff: "(filter P xs \<noteq> []) = list_ex P xs"
  by (induction xs) auto

lemma extreme_matches_iff:
  "(extreme_matches q \<noteq> []) = any_found EXTREME_WORDS False q"
  by (simp add: extreme_matches_def any_found_def filter_nonempty_iff)

lemma lit_ends: "q \<in> set (ends (seqs (map Lit w)) False p) \<Longrightarrow> snd p = w @ snd q"
proof (induction w arbitrary: p)
  case Nil
  then show ?case by simp
next
  case (Cons c w)
  obtain prev rest where p: "p = (prev, rest)" by (cases p)
  show ?case
  proof (cases w)
    case Nil
    with Cons.prems p show ?thesis
      by (cases rest) (auto simp: char_eq_def split: if_splits)
  next
    case (Cons d ds)
    with Cons.prems obtain p' where p': "p' \<in> set (ends (Lit c) False p)"
      and q: "q \<in> set (ends (seqs (map Lit w)) False p')"
      by auto
    from p' p have "snd p = c # snd p'"
      by (cases rest) (auto simp: char_eq_def split: if_splits)
    with Cons.IH [OF q] show ?thesis by simp
  qed
qed

lemma startswith_append: "startswith (w @ t) w"
  by (induction w) auto

lemma contains_append: "contains (pre @ w @ t) w"
proof (induction pre)
  case Nil
  have "startswith (w @ t) w" by (rule startswith_append)
  then show ?case by (cases "w @ t") auto
next
  case (Cons a pre)
  then show ?case by simp
qed

lemma search_from_Some:
  "search_from r ic p = Some (a, q) \<Longrightarrow> (\<exists>pre. snd p = pre @ snd a) \<and> q \<in> set (ends r ic a)"
proof (induction r ic p rule: search_from.induct)
  case (1 r ic prev rest)
  show ?case
  proof (cases "ends r ic (prev, rest)")
    case (Cons q' qs)
    with "1.prems" show ?thesis by auto
  next
    case Nil
    show ?thesis
    proof (cases rest)
      case Nil
      with \<open>ends r ic (prev, rest) = []\<close> "1.prems" show ?thesis by simp
    next
      case (Cons c cs)
      with \<open>ends r ic (prev, rest) = []\<close> "1.prems"
      have "search_from r ic (Some c, cs) = Some (a, q)" by simp
      from "1.IH" [OF \<open>ends r ic (prev, rest) = []\<close> Cons this]
      obtain pre where "cs = pre @ snd a" and "q \<in> set (ends r ic a)" by auto
      then have "rest = (c # pre) @ snd a" using Cons by simp
      with \<open>q \<in> set (ends r ic a)\<close> show ?thesis by (metis snd_conv)
    qed
  qed
qed

lemma found_starts:
  assumes "found r ic s"
  obtains pre a q where "s = pre @ snd a" and "q \<in> set (ends r ic a)"
proof -
  from assms obtain a q where "search_from r ic (None, s) = Some (a, q)"
    by (auto simp: found_def re_search_def)
  from search_from_Some [OF this]
  obtain pre where "snd (None :: char option, s) = pre @ snd a" and "q \<in> set (ends r ic a)"
    by blast
  then have s: "s = pre @ snd a" by simp
  show ?thesis by (rule that [OF s \<open>q \<in> set (ends r ic a)\<close>])
qed

lemma ends_Seq_first:
  "q \<in> set (ends (Seq a b) ic p) \<Longrightarrow> \<exists>q'. q' \<in> set (ends a ic p)"
  by (cases "ends a ic p") auto

lemma ends_bounded_inner:
  "q \<in> set (ends (bounded r) ic p) \<Longrightarrow> \<exists>q'. q' \<in> set (ends r ic p)"
proof -
  assume "q \<in> set (ends (bounded r) ic p)"
  then have "q \<in> set (ends (Seq r WordB) ic p)"
    by (simp add: bounded_def split: if_splits)
  then show ?thesis by (rule ends_Seq_first)
qed

lemma found_lit_prefix_contains:
  assumes "found (bounded (Seq (lit w) r)) False s"
  shows "contains s w"
proof -
  from assms obtain pre a q where s: "s = pre @ snd a"
    and q: "q \<in> set (ends (bounded (Seq (lit w) r)) False a)"
    by (rule found_starts)
  from ends_bounded_inner [OF q] obtain q1 where "q1 \<in> set (ends (Seq (lit w) r) False a)" ..
  from ends_Seq_first [OF this] obtain q' where "q' \<in> set (ends (lit w) False a)" ..
  then have "snd a = w @ snd q'" by (simp add: lit_def lit_ends)
  with s have "s = pre @ w @ snd q'" by simp
  then show ?thesis by (simp add: contains_append)
qed

lemma found_word_contains:
  assumes "found (word w) False s"
  shows "contains s w"
proof -
  from assms obtain pre a q where s: "s = pre @ snd a"
    and q: "q \<in> set (ends (bounded (lit w)) False a)"
    unfolding word_def by (rule found_starts)
  from ends_bounded_inner [OF q] obtain q' where "q' \<in> set (ends (lit w) False a)" ..
  then have "snd a = w @ snd q'" by (simp add: lit_def lit_ends)
  with s have "s = pre @ w @ snd q'" by simp
  then show ?thesis by (simp add: contains_append)
qed

lemma high_impact_iff:
  "high_impact_among_matches q = any_found HIGH_IMPACT_PATTERNS False q"
proof -
  have sub: "set HIGH_IMPACT_PATTERNS \<subseteq> set EXTREME_WORDS"
    by (simp add: HIGH_IMPACT_PATTERNS_def EXTREME_WORDS_def)
  have "high_impact_among_matches q =
          (\<exists>r \<in> set EXTREME_WORDS. found r False q \<and> r \<in> set HIGH_IMPACT_PATTERNS)"
    by (auto simp: high_impact_among_matches_def extreme_matches_def list_ex_iff)
  also have "\<dots> = (\<exists>r \<in> set HIGH_IMPACT_PATTERNS. found r False q)"
    using sub by blast
  finally show ?thesis by (simp add: any_found_def list_ex_iff)
qed

lemma high_impact_matched_contains:
  "any_found HIGH_IMPACT_PATTERNS False q \<Longrightarrow> list_ex (contains q) HIGH_IMPACT"
  by (auto simp: any_found_def HIGH_IMPACT_PATTERNS_def HIGH_IMPACT_def
           dest: found_word_contains found_lit_prefix_contains)

lemma extreme_fails_iff:
  "(\<not> passed (check_extreme_language_in_claim self claim)) =
     any_found EXTREME_WORDS False (lower (quote claim))"
  by (simp add: check_extreme_language_in_claim_def Let_def extreme_matches_iff)

lemma extreme_severity:
  "severity (check_extreme_language_in_claim self claim) =
     (if passed (check_extreme_language_in_claim self claim) then Low
      else if list_ex (contains (lower (quote claim))) HIGH_IMPACT then High else Medium)"
  by (simp add: check_extreme_language_in_claim_def Let_def)

lemma willow_fails: "any_found EXTREME_WORDS False (lower ''All willow trees'')"
  by code_simp

lemma willow_no_high_impact: "\<not> any_found HIGH_IMPACT_PATTERNS False (lower ''All willow trees'')"
  by code_simp

lemma willow_contains: "list_ex (contains (lower ''All willow trees'')) HIGH_IMPACT"
  by code_simp

text \<open>
  C1, as stated, fails: for the quote "All willow trees" the rule fails on the pattern for
  "all", none of the patterns for will, cure, guarantee and must matches, and yet the
  severity is not medium: "will" is a substring of "willow".
\<close>

theorem extreme_language_severity_counterexample:
  "\<not> passed (check_extreme_language_in_claim test_analyzer (claim_of ''All willow trees'' [])) \<and>
   \<not> high_impact_among_matches (lower (quote (claim_of ''All willow trees'' []))) \<and>
   severity (check_extreme_language_in_claim test_analyzer (claim_of ''All willow trees'' [])) \<noteq> Medium"
  using willow_fails willow_no_high_impact willow_contains
  by (simp add: extreme_fails_iff extreme_severity high_impact_iff claim_of_def)

text \<open>
  C1, amended: the Extreme Language rule fails iff some extreme-word pattern matches the
  lower-cased quote; the severity of a failing check is high iff the lower-cased quote
  contains one of will, cure, guarantee, must as a substring, and medium otherwise; in
  particular it is high whenever the pattern of one of those four words is among the
  matches.
\<close>

theorem extreme_language_rule:
  "((\<not> passed (check_extreme_language_in_claim self claim)) =
      any_found EXTREME_WORDS False (lower (quote claim))) \<and>
   severity (check_extreme_language_in_claim self claim) =
     (if passed (check_extreme_language_in_claim self claim) then Low
      else if list_ex (contains (lower (quote claim))) HIGH_IMPACT then High else Medium) \<and>
   (high_impact_among_matches (lower (quote claim)) \<longrightarrow>
      \<not> passed (check_extreme_language_in_claim self claim) \<and>
      severity (check_extreme_language_in_claim self claim) = High)"
proof -
  have "high_impact_among_matches (lower (quote claim)) \<Longrightarrow>
          any_found EXTREME_WORDS False (lower (quote claim))"
    by (auto simp: high_impact_among_matches_def extreme_matches_def any_found_def list_ex_iff)
  moreover have "high_impact_among_matches (lower (quote claim)) \<Longrightarrow>
          list_ex (contains (lower (quote claim))) HIGH_IMPACT"
    by (simp add: high_impact_iff high_impact_matched_contains)
  ultimately show ?thesis
    using extreme_fails_iff [of self claim] extreme_severity [of self claim] by auto
qed

lemma will_high_impact: "high_impact_among_matches (lower (quote (claim_of ''This will cure everything'' [])))"
  by code_simp

text \<open>
  C1, witness: "This will cure everything" matches the patterns for will and cure, and
  the rule fails with severity high.
\<close>

theorem extreme_language_rule_witness:
  "high_impact_among_matches (lower (quote (claim_of ''This will cure everything'' []))) \<and>
   \<not> passed (check_extreme_language_in_claim test_analyzer (claim_of ''This will cure everything'' [])) \<and>
   severity (check_extreme_language_in_claim test_analyzer (claim_of ''This will cure everything'' [])) = High"
  using extreme_language_rule [of test_analyzer "claim_of ''This will cure everything'' []"]
    will_high_impact
  by blast



section \<open>Verdicts of the claim rules\<close>

lemma search_from_Alt:
  "(search_from (Alt a b) ic (prev, rest) \<noteq> None) =
     (search_from a ic (prev, rest) \<noteq> None \<or> search_from b ic (prev, rest) \<noteq> None)"
proof (induction rest arbitrary: prev)
  case Nil
  show ?case
    by (cases "ends a ic (prev, [])"; cases "ends b ic (prev, [])") simp_all
next
  case (Cons c cs)
  show ?case
    using Cons.IH [of "Some c"]
    by (cases "ends a ic (prev, c # cs)"; cases "ends b ic (prev, c # cs)") simp_all
qed

lemma search_from_empty_class: "search_from (Class []) ic (prev, rest) = None"
  by (induction rest arbitrary: prev) simp_all

lemma found_Alt: "found (Alt a b) ic s = (found a ic s \<or> found b ic s)"
  using search_from_Alt [of a b ic None s] by (simp add: found_def re_search_def)

lemma found_alts: "found (alts rs) ic s = list_ex (\<lambda>r. found r ic s) rs"
proof (induction rs rule: alts.induct)
  case 1
  show ?case
    using search_from_empty_class [of ic None s]
    by (simp add: found_def re_search_def del: search_from.simps)
next
  case (2 r)
  show ?case by simp
next
  case (3 r r' rs)
  then show ?case by (simp add: found_Alt)
qed

lemma evidence_markers_iff:
  "found EVIDENCE_MARKERS True q =
     (found (word ''randomized'') True q \<or> found (word ''controlled trial'') True q \<or>
      found (word ''RCT'') True q \<or> found (word ''experiment'') True q \<or>
      found (word ''intervention'') True q)"
  by (simp add: EVIDENCE_MARKERS_def found_Alt)

lemma marker_randomized:
  "any_found CAUSATION_WORDS False (lower ''A randomized trial shows coffee causes longevity'') \<and>
   found (word ''randomized'') True ''A randomized trial shows coffee causes longevity''"
  by code_simp

lemma marker_controlled_trial:
  "any_found CAUSATION_WORDS False (lower ''In a Controlled Trial coffee causes longevity'') \<and>
   found (word ''controlled trial'') True ''In a Controlled Trial coffee causes longevity''"
  by code_simp

lemma marker_rct:
  "any_found CAUSATION_WORDS False (lower ''An rct shows coffee causes longevity'') \<and>
   found (word ''RCT'') True ''An rct shows coffee causes longevity''"
  by code_simp

lemma marker_experiment:
  "any_found CAUSATION_WORDS False (lower ''Our experiment shows coffee causes longevity'') \<and>
   found (word ''experiment'') True ''Our experiment shows coffee causes longevity''"
  by code_simp

lemma marker_intervention:
  "any_found CAUSATION_WORDS False (lower ''After the INTERVENTION coffee causes longevity'') \<and>
   found (word ''intervention'') True ''After the INTERVENTION coffee causes longevity''"
  by code_simp

lemma coffee_causal:
  "any_found CAUSATION_WORDS False (lower ''Coffee drinking causes longevity'')"
  by code_simp

lemma coffee_no_evidence:
  "\<not> found EVIDENCE_MARKERS True ''Coffee drinking causes longevity''"
  by code_simp

lemma correlation_fails_iff:
  "(\<not> passed (check_correlation_vs_causation self claim)) =
     (any_found CAUSATION_WORDS False (lower (quote claim)) \<and>
      \<not> found EVIDENCE_MARKERS True (quote claim))"
  by (simp add: check_correlation_vs_causation_def Let_def)

lemma correlation_severity:
  "severity (check_correlation_vs_causation self claim) =
     (if passed (check_correlation_vs_causation self claim) then Low else High)"
  by (simp add: check_correlation_vs_causation_def Let_def)

lemma marker_suppresses:
  "found EVIDENCE_MARKERS True s \<Longrightarrow> passed (check_correlation_vs_causation self (claim_of s []))"
  by (simp add: check_correlation_vs_causation_def Let_def claim_of_def)

text \<open>
  C4: the Correlation vs Causation rule fails with severity high iff a causal-relation
  pattern matches the (lower-cased) quote and the quote has none of the
  experimental-evidence markers randomized, controlled trial, RCT, experiment,
  intervention (as words, in any case).  The quote "Coffee drinking causes longevity"
  fails with severity high; each of the five markers, added to a quote with the causal
  word "causes", makes the check pass.
\<close>

theorem correlation_vs_causation_rule:
  "((\<not> passed (check_correlation_vs_causation self claim) \<and>
     severity (check_correlation_vs_causation self claim) = High) =
    (any_found CAUSATION_WORDS False (lower (quote claim)) \<and>
     \<not> found EVIDENCE_MARKERS True (quote claim))) \<and>
   ((\<not> passed (check_correlation_vs_causation self claim)) =
    (any_found CAUSATION_WORDS False (lower (quote claim)) \<and>
     \<not> found EVIDENCE_MARKERS True (quote claim))) \<and>
   \<not> passed (check_correlation_vs_causation self (claim_of ''Coffee drinking causes longevity'' [])) \<and>
   severity (check_correlation_vs_causation self (claim_of ''Coffee drinking causes longevity'' [])) = High \<and>
   ((\<not> passed (check_correlation_vs_causation self claim) \<and>
     severity (check_correlation_vs_causation self claim) = High) =
    (any_found CAUSATION_WORDS False (lower (quote claim)) \<and>
     \<not> (found (word ''randomized'') True (quote claim) \<or>
        found (word ''controlled trial'') True (quote claim) \<or>
        found (word ''RCT'') True (quote claim) \<or>
        found (word ''experiment'') True (quote claim) \<or>
        found (word ''intervention'') True (quote claim)))) \<and>
   any_found CAUSATION_WORDS False (lower ''A randomized trial shows coffee causes longevity'') \<and>
   passed (check_correlation_vs_causation self
     (claim_of ''A randomized trial shows coffee causes longevity'' [])) \<and>
   any_found CAUSATION_WORDS False (lower ''In a Controlled Trial coffee causes longevity'') \<and>
   passed (check_correlation_vs_causation self
     (claim_of ''In a Controlled Trial coffee causes longevity'' [])) \<and>
   any_found CAUSATION_WORDS False (lower ''An rct shows coffee causes longevity'') \<and>
   passed (check_correlation_vs_causation self
     (claim_of ''An rct shows coffee causes longevity'' [])) \<and>
   any_found CAUSATION_WORDS False (lower ''Our experiment shows coffee causes longevity'') \<and>
   passed (check_correlation_vs_causation self
     (claim_of ''Our experiment shows coffee causes longevity'' [])) \<and>
   any_found CAUSATION_WORDS False (lower ''After the INTERVENTION coffee causes longevity'') \<and>
   passed (check_correlation_vs_causation self
     (claim_of ''After the INTERVENTION coffee causes longevity'' []))"
proof -
  have q: "\<And>s. quote (claim_of s []) = s" by (simp add: claim_of_def)
  have general: "(\<not> passed (check_correlation_vs_causation self claim) \<and>
     severity (check_correlation_vs_causation self claim) = High) =
    (any_found CAUSATION_WORDS False (lower (quote claim)) \<and>
     \<not> found EVIDENCE_MARKERS True (quote claim))"
    using correlation_fails_iff [of self claim] correlation_severity [of self claim] by auto
  have coffee: "\<not> passed (check_correlation_vs_causation self (claim_of ''Coffee drinking causes longevity'' []))"
    "severity (check_correlation_vs_causation self (claim_of ''Coffee drinking causes longevity'' [])) = High"
    using coffee_causal coffee_no_evidence
    by (simp_all add: correlation_fails_iff correlation_severity q)
  have m1: "passed (check_correlation_vs_causation self
     (claim_of ''A randomized trial shows coffee causes longevity'' []))"
    by (rule marker_suppresses) (use marker_randomized in \<open>simp add: evidence_markers_iff\<close>)
  have m2: "passed (check_correlation_vs_causation self
     (claim_of ''In a Controlled Trial coffee causes longevity'' []))"
    by (rule marker_suppresses) (use marker_controlled_trial in \<open>simp add: evidence_markers_iff\<close>)
  have m3: "passed (check_correlation_vs_causation self
     (claim_of ''An rct shows coffee causes longevity'' []))"
    by (rule marker_suppresses) (use marker_rct in \<open>simp add: evidence_markers_iff\<close>)
  have m4: "passed (check_correlation_vs_causation self
     (claim_of ''Our experiment shows coffee causes longevity'' []))"
    by (rule marker_suppresses) (use marker_experiment in \<open>simp add: evidence_markers_iff\<close>)
  have m5: "passed (check_correlation_vs_causation self
     (claim_of ''After the INTERVENTION coffee causes longevity'' []))"
    by (rule marker_suppresses) (use marker_intervention in \<open>simp add: evidence_markers_iff\<close>)
  from general correlation_fails_iff [of self claim] coffee m1 m2 m3 m4 m5
    marker_randomized marker_controlled_trial marker_rct marker_experiment marker_intervention
    evidence_markers_iff [of "quote claim"]
  show ?thesis by blast
qed

text \<open>
  C4, witness: "A randomized trial shows coffee causes longevity" has the causal word
  "causes" and the marker "randomized", and the check passes.
\<close>

theorem correlation_vs_causation_rule_witness:
  "any_found CAUSATION_WORDS False (lower ''A randomized trial shows coffee causes longevity'') \<and>
   found (word ''randomized'') True ''A randomized trial shows coffee causes longevity'' \<and>
   passed (check_correlation_vs_causation test_analyzer
     (claim_of ''A randomized trial shows coffee causes longevity'' []))"
  using correlation_vs_causation_rule
    [of test_analyzer "claim_of ''A randomized trial shows coffee causes longevity'' []"]
    marker_randomized
  by blast



















lemma rule_shapes:
  "check_name (check_correlation_vs_causation self claim) = ''Correlation vs Causation''"
  "check_name (check_sample_size self claim) = ''Sample Size Disclosure''"
  "check_name (check_extreme_language_in_claim self claim) = ''Extreme Language''"
  "check_name (check_base_rate self claim) = ''Base Rate Neglect''"
  "check_name (check_data_support self claim) = ''Data Support''"
  "check_name (check_relative_risk_without_context self claim) = ''Relative Risk Without Context''"
  "check_name (check_missing_comparator self claim) = ''Missing Comparator''"
  by (simp_all add: check_correlation_vs_causation_def check_sample_size_def
        check_extreme_language_in_claim_def check_base_rate_def check_data_support_def
        check_relative_risk_without_context_def check_missing_comparator_def Let_def)

lemma rule_sound:
  "sound_check (check_correlation_vs_causation self claim)"
  "sound_check (check_sample_size self claim)"
  "sound_check (check_extreme_language_in_claim self claim)"
  "sound_check (check_base_rate self claim)"
  "sound_check (check_data_support self claim)"
  "sound_check (check_relative_risk_without_context self claim)"
  "sound_check (check_missing_comparator self claim)"
  by (simp_all add: sound_check_def check_correlation_vs_causation_def check_sample_size_def
        check_extreme_language_in_claim_def check_base_rate_def check_data_support_def
        check_relative_risk_without_context_def check_missing_comparator_def Let_def)

text \<open>
  C8: \<open>check_claim\<close> runs the seven rules in the fixed order and returns exactly seven
  checks, named in that order; a check that passes has severity low, no check has
  severity critical, and every explanation has the ten characters the schema of
  \<open>StatisticalCheck\<close> asks for, so building the checks never raises.
\<close>

theorem check_claim_seven_checks:
  "check_claim self claim =
     [check_correlation_vs_causation self claim, check_sample_size self claim,
      check_extreme_language_in_claim self claim, check_base_rate self claim,
      check_data_support self claim, check_relative_risk_without_context self claim,
      check_missing_comparator self claim] \<and>
   length (check_claim self claim) = 7 \<and>
   map check_name (check_claim self claim) =
     [''Correlation vs Causation'', ''Sample Size Disclosure'', ''Extreme Language'',
      ''Base Rate Neglect'', ''Data Support'', ''Relative Risk Without Context'',
      ''Missing Comparator''] \<and>
   (\<forall>c \<in> set (check_claim self claim).
      (passed c \<longrightarrow> severity c = Low) \<and> severity c \<noteq> Critical \<and> 10 \<le> length (explanation c))"
  using rule_sound [of self claim]
  by (simp add: check_claim_def rule_shapes sound_check_def)

lemma coffee_sample_size_passes:
  "passed (check_sample_size test_analyzer (claim_of ''Coffee drinking causes longevity'' []))"
  by code_simp

text \<open>
  C8, witness: for "Coffee drinking causes longevity" the Sample Size Disclosure check is
  among the seven, passes, and has severity low.
\<close>

theorem check_claim_seven_checks_witness:
  "check_sample_size test_analyzer (claim_of ''Coffee drinking causes longevity'' [])
     \<in> set (check_claim test_analyzer (claim_of ''Coffee drinking causes longevity'' [])) \<and>
   passed (check_sample_size test_analyzer (claim_of ''Coffee drinking causes longevity'' [])) \<and>
   severity (check_sample_size test_analyzer (claim_of ''Coffee drinking causes longevity'' [])) = Low \<and>
   length (check_claim test_analyzer (claim_of ''Coffee drinking causes longevity'' [])) = 7"
proof -
  let ?c = "claim_of ''Coffee drinking causes longevity'' []"
  note t = check_claim_seven_checks [of test_analyzer ?c]
  have m: "check_sample_size test_analyzer ?c \<in> set (check_claim test_analyzer ?c)"
    by (simp add: check_claim_def)
  from t m coffee_sample_size_passes show ?thesis by blast
qed

text \<open>
  C10: the seven checks of a claim are the same under the analyzers of any two texts,
  and depend on the claim through its quote and numerical values only.
\<close>

theorem check_claim_ignores_text:
  "check_claim (analyzer t1) claim = check_claim (analyzer t2) claim \<and>
   length (check_claim (analyzer t1) claim) = 7 \<and>
   (quote claim = quote claim' \<and> numerical_values claim = numerical_values claim' \<longrightarrow>
      check_claim (analyzer t1) claim = check_claim (analyzer t2) claim')"
  by (simp add: check_claim_def check_correlation_vs_causation_def check_sample_size_def
        check_extreme_language_in_claim_def check_base_rate_def check_data_support_def
        check_relative_risk_without_context_def check_missing_comparator_def Let_def)

text \<open>
  C10, witness: two claims that differ in id, type, confidence and variables but share
  quote and numerical values get the same checks under analyzers of different texts.
\<close>

theorem check_claim_ignores_text_witness:
  "quote (claim_of ''Coffee drinking causes longevity'' []) = quote other_claim \<and>
   numerical_values (claim_of ''Coffee drinking causes longevity'' []) = numerical_values other_claim \<and>
   claim_of ''Coffee drinking causes longevity'' [] \<noteq> other_claim \<and>
   check_claim (analyzer ''Test text'') (claim_of ''Coffee drinking causes longevity'' []) =
     check_claim (analyzer ''Coffee is 100% safe. It always works!'') other_claim"
proof -
  have q: "quote (claim_of ''Coffee drinking causes longevity'' []) = quote other_claim"
    and n: "numerical_values (claim_of ''Coffee drinking causes longevity'' []) = numerical_values other_claim"
    and d: "claim_of ''Coffee drinking causes longevity'' [] \<noteq> other_claim"
    by (simp_all add: claim_of_def other_claim_def)
  from check_claim_ignores_text [of "''Test text''" "claim_of ''Coffee drinking causes longevity'' []"
      "''Coffee is 100% safe. It always works!''" other_claim] q n d
  show ?thesis by blast
qed

section \<open>Aggregation\<close>

text \<open>
  C6: the overall status is a function of the list of checks: critical if a failed check
  has severity critical, else major issues if a failed check has severity high, else
  minor issues if a check failed, else clean.
\<close>

theorem overall_status_tie_break:
  "derive_status checks =
     (if \<exists>c \<in> set checks. \<not> passed c \<and> severity c = Critical then Critical_status
      else if \<exists>c \<in> set checks. \<not> passed c \<and> severity c = High then Major_issues
      else if \<exists>c \<in> set checks. \<not> passed c then Minor_issues
      else Clean) \<and>
   overall_status (audit_of claim checks) = derive_status checks"
  by (auto simp: derive_status_def audit_of_def Let_def list_ex_iff filter_empty_conv)



section \<open>Reliability score\<close>












section \<open>Ranges of the text metrics\<close>













section \<open>Attempts of the retry loop\<close>















end
